theory Spec2Isabelle
  imports Main "HOL-Library.Sublist"
begin

section \<open>The cultural-cuisine rules engine of NutriCartAI\<close>

text \<open>
  A shallow embedding of \<^verbatim>\<open>ai-services/cultural-cuisine-service.ts\<close>: the four exported
  operations \<^verbatim>\<open>findIngredientSubstitutes\<close>, \<^verbatim>\<open>analyzeAuthenticityScore\<close>,
  \<^verbatim>\<open>findComplementaryDishes\<close>, \<^verbatim>\<open>getServingEtiquetteGuide\<close> and the three static tables
  behind them.

  Strings are \<^typ>\<open>string\<close>; a \<^typ>\<open>char\<close> stands for one UTF-16 code unit in the range
  0..255 (ASCII and Latin-1), which covers every literal of the source. Numbers are
  \<^typ>\<open>int\<close>: the score is 100 minus multiples of 5, far inside the range where a
  JavaScript number is an exact integer.
\<close>

subsection \<open>String primitives\<close>

text \<open>
  \<^verbatim>\<open>String.prototype.toLowerCase\<close> on code units below 256: the ASCII capitals A..Z and
  the Latin-1 capitals U+00C0..U+00DE (the multiplication sign U+00D7 apart) move up by
  32, everything else stays.
\<close>

definition toLowerCaseUnit :: "char \<Rightarrow> char" where
  "toLowerCaseUnit c =
     (let n = (of_char c :: nat) in
      if (65 \<le> n \<and> n \<le> 90) \<or> (192 \<le> n \<and> n \<le> 222 \<and> n \<noteq> 215)
      then char_of (n + 32) else c)"

definition toLowerCase :: "string \<Rightarrow> string" where
  "toLowerCase s = map toLowerCaseUnit s"

text \<open>
  \<^verbatim>\<open>s.includes(t)\<close>: \<open>t\<close> occurs in \<open>s\<close> as a contiguous run of code units, starting
  at some position; the empty string occurs everywhere.
\<close>

fun startsWith :: "string \<Rightarrow> string \<Rightarrow> bool" where
  "startsWith s [] = True"
| "startsWith [] (c # t) = False"
| "startsWith (d # s) (c # t) = (d = c \<and> startsWith s t)"

fun includes_str :: "string \<Rightarrow> string \<Rightarrow> bool" where
  "includes_str [] t = startsWith [] t"
| "includes_str (d # s) t = (startsWith (d # s) t \<or> includes_str s t)"

subsection \<open>Property lookup on an object literal\<close>

text \<open>
  The three tables are object literals indexed by a caller-supplied string,
  \<^verbatim>\<open>table[key]\<close>. Such a read finds the literal's own properties first and then the
  properties every object literal inherits from \<^verbatim>\<open>Object.prototype\<close>. The inherited
  values are built-in functions (and, for \<^verbatim>\<open>__proto__\<close>, the prototype object itself):
  all truthy, none with a field named like the fields of the table entries. A key found in
  neither place reads as \<^verbatim>\<open>undefined\<close>, here \<open>None\<close>.
\<close>

datatype 'a js_object = Entry 'a | Builtin

definition objectPrototypeKeys :: "string list" where
  "objectPrototypeKeys =
     [''constructor'', ''__defineGetter__'', ''__defineSetter__'', ''hasOwnProperty'',
      ''__lookupGetter__'', ''__lookupSetter__'', ''isPrototypeOf'',
      ''propertyIsEnumerable'', ''toString'', ''valueOf'', ''__proto__'',
      ''toLocaleString'']"

definition getProperty :: "(string \<times> 'a) list \<Rightarrow> string \<Rightarrow> 'a js_object option" where
  "getProperty obj key =
     (case map_of obj key of
        Some v \<Rightarrow> Some (Entry v)
      | None \<Rightarrow> if key \<in> set objectPrototypeKeys then Some Builtin else None)"

text \<open>
  Reading a list-valued field of an object with a default, \<^verbatim>\<open>v.field || []\<close>: an array
  is truthy even when empty, and the field read on a built-in value is \<^verbatim>\<open>undefined\<close>.
\<close>

fun fieldOrEmpty :: "('a \<Rightarrow> string list) \<Rightarrow> 'a js_object \<Rightarrow> string list" where
  "fieldOrEmpty f (Entry v) = f v"
| "fieldOrEmpty f Builtin = []"

subsection \<open>Data model\<close>

datatype FlavorImpact = minimal | moderate | significant

datatype error = TypeError

text \<open>
  \<^verbatim>\<open>CulturalRecipe\<close> and \<^verbatim>\<open>PantryItem\<close> come from the shared schema; the engine reads
  one field of each. The other fields live in the record extension. The field
  \<^verbatim>\<open>notes\<close> of a rule and of a substitution is written \<open>ruleNotes\<close> and \<open>subNotes\<close>
  (the plain name is reserved in Isabelle), and \<^verbatim>\<open>includes\<close> is \<open>includes_str\<close>.
\<close>

record CulturalRecipe =
  authenticIngredients :: "string list"

record PantryItem =
  name :: string

record SubstitutionRule =
  substitutes :: "string list"
  ruleNotes :: string
  ruleFlavorImpact :: FlavorImpact

record IngredientSubstitution =
  original :: string
  substitute :: string
  subNotes :: string
  flavorImpact :: FlavorImpact

record AuthenticityAssessment =
  score :: int
  feedback :: "string list"

record RegionalPairings =
  mainDishes :: "string list"
  sideDishes :: "string list"
  desserts :: "string list"
  beverages :: "string list"

record RegionalEtiquette =
  presentation :: "string list"
  customs :: "string list"
  taboos :: "string list"
  servingOrder :: "string list"

subsection \<open>The substitution table\<close>

definition mkRule :: "string list \<Rightarrow> string \<Rightarrow> FlavorImpact \<Rightarrow> SubstitutionRule" where
  "mkRule subs n f = \<lparr>substitutes = subs, ruleNotes = n, ruleFlavorImpact = f\<rparr>"

definition getSubstitutionRules :: "(string \<times> SubstitutionRule) list" where
  "getSubstitutionRules =
   [(''kaffir lime leaves'',
       mkRule [''lime zest'', ''bay leaves with lime zest'']
         ''Use lime zest for citrus notes, bay leaf adds aromatic element'' moderate),
    (''fish sauce'',
       mkRule [''soy sauce with salt'', ''worcestershire sauce'']
         ''Add a pinch of salt and a drop of vinegar to better mimic umami flavor''
         significant),
    (''gochujang'',
       mkRule [''sriracha with miso paste'', ''red pepper flakes with honey'']
         ''Mix 2 parts sriracha with 1 part miso for similar fermented spicy flavor''
         moderate),
    (''lemongrass'',
       mkRule [''lemon zest with ginger'', ''lemon verbena'']
         ''Combine 1 tablespoon lemon zest with 1/4 teaspoon ginger powder'' moderate),
    (''tahini'',
       mkRule [''smooth peanut butter'', ''sunflower seed butter'']
         ''Thin with sesame oil if available for closer flavor profile'' minimal),
    (''ghee'',
       mkRule [''clarified butter'', ''butter'', ''coconut oil'']
         ''Unsalted butter is your best alternative, coconut oil changes flavor profile''
         minimal),
    (''sumac'',
       mkRule [''lemon zest'', ''amchoor powder'', ''tamarind'']
         ''Add a touch of salt to lemon zest for similar tanginess'' moderate),
    (''oyster sauce'',
       mkRule [''hoisin sauce'', ''soy sauce with sugar'']
         ''Mix 1 tablespoon soy sauce with 1/2 teaspoon sugar and 1/2 teaspoon Worcestershire sauce''
         moderate),
    (''galangal'',
       mkRule [''ginger'', ''ginger with lemon zest'']
         ''True galangal has a sharper, citrusy flavor than ginger'' moderate),
    (''tamarind paste'',
       mkRule [''lime juice with brown sugar'', ''pomegranate molasses'', ''vinegar with dates'']
         ''Mix 1 part lime juice with 1 part brown sugar for similar sweet-sour profile''
         moderate),
    (''shiso leaves'',
       mkRule [''mint with basil'', ''thai basil'']
         ''Equal parts mint and basil can approximate the complex flavor'' moderate),
    (''miso paste'',
       mkRule [''tahini with soy sauce'', ''vegetable bouillon'']
         ''Lacks fermented quality but provides umami base'' significant),
    (''za'atar'',
       mkRule [''thyme with sesame seeds and sumac'', ''thyme with lemon zest'']
         ''Mix 1 tbsp thyme, 1 tsp sesame seeds, pinch of salt and lemon zest'' moderate),
    (''plantains'',
       mkRule [''green bananas'', ''potatoes for savory dishes'']
         ''Texture will differ; use less cooking time'' significant),
    (''paneer'',
       mkRule [''firm tofu'', ''halloumi'', ''queso fresco'']
         ''Drain tofu well and press before using'' moderate)]"

subsection \<open>findIngredientSubstitutes\<close>

text \<open>
  \<^verbatim>\<open>pantryItems.some(item => item.name.toLowerCase().includes(sub.toLowerCase()))\<close>
\<close>

definition inPantry :: "'p PantryItem_scheme list \<Rightarrow> string \<Rightarrow> bool" where
  "inPantry pantryItems sub =
     list_ex (\<lambda>item. includes_str (toLowerCase (name item)) (toLowerCase sub)) pantryItems"

text \<open>
  The body of the \<^verbatim>\<open>if (rule)\<close> branch for an own rule: \<^verbatim>\<open>substitutes.find\<close> gives the
  first candidate in the pantry or \<^verbatim>\<open>undefined\<close>; \<^verbatim>\<open>if (availableSubstitute)\<close> tests
  truthiness, which for a string means non-empty; otherwise \<^verbatim>\<open>rule.substitutes[0]\<close>.
  Every rule of the table lists at least one candidate (\<open>rules_have_candidates\<close> below),
  so \<^term>\<open>hd\<close> is only ever applied to a non-empty list.
\<close>

definition chooseSubstitute :: "SubstitutionRule \<Rightarrow> 'p PantryItem_scheme list \<Rightarrow> string" where
  "chooseSubstitute rule pantryItems =
     (case find (inPantry pantryItems) (substitutes rule) of
        Some availableSubstitute \<Rightarrow>
          if availableSubstitute \<noteq> [] then availableSubstitute else hd (substitutes rule)
      | None \<Rightarrow> hd (substitutes rule))"

text \<open>
  The \<^verbatim>\<open>for (const ingredient of authenticIngredients)\<close> loop, with the array
  \<^verbatim>\<open>substitutions\<close> it pushes to as an accumulator. When the looked-up value is a built-in
  (truthy, so the \<^verbatim>\<open>if (rule)\<close> branch is entered), \<^verbatim>\<open>rule.substitutes\<close> is
  \<^verbatim>\<open>undefined\<close> and the call of \<^verbatim>\<open>.find\<close> on it throws a \<^verbatim>\<open>TypeError\<close>, which ends
  the whole call.
\<close>

fun substitutionLoop ::
  "'p PantryItem_scheme list \<Rightarrow> string list \<Rightarrow> IngredientSubstitution list
     \<Rightarrow> error + IngredientSubstitution list" where
  "substitutionLoop pantryItems [] substitutions = Inr substitutions"
| "substitutionLoop pantryItems (ingredient # rest) substitutions =
     (case getProperty getSubstitutionRules (toLowerCase ingredient) of
        None \<Rightarrow> substitutionLoop pantryItems rest substitutions
      | Some Builtin \<Rightarrow> Inl TypeError
      | Some (Entry rule) \<Rightarrow>
          substitutionLoop pantryItems rest
            (substitutions @
              [\<lparr>original = ingredient,
                substitute = chooseSubstitute rule pantryItems,
                subNotes = ruleNotes rule,
                flavorImpact = ruleFlavorImpact rule\<rparr>]))"

definition findIngredientSubstitutes ::
  "'r CulturalRecipe_scheme \<Rightarrow> 'p PantryItem_scheme list \<Rightarrow> string
     \<Rightarrow> error + IngredientSubstitution list" where
  "findIngredientSubstitutes recipe pantryItems userRegion =
     substitutionLoop pantryItems (authenticIngredients recipe) []"

subsection \<open>analyzeAuthenticityScore\<close>

text \<open>
  The \<^verbatim>\<open>for (const sub of usedSubstitutions)\<close> loop over the two mutable locals
  \<^verbatim>\<open>score\<close> and \<^verbatim>\<open>feedback\<close>. \<^verbatim>\<open>flavorImpact\<close> has exactly the three values of its
  type, so one of the three cases always runs.
\<close>

fun scoreLoop :: "IngredientSubstitution list \<Rightarrow> int \<Rightarrow> string list \<Rightarrow> int \<times> string list" where
  "scoreLoop [] sc fb = (sc, fb)"
| "scoreLoop (sub # rest) sc fb =
     (case flavorImpact sub of
        minimal \<Rightarrow>
          scoreLoop rest (sc - 5)
            (fb @ [''Using '' @ substitute sub @ '' instead of '' @ original sub
                     @ '' has minimal impact on authenticity''])
      | moderate \<Rightarrow>
          scoreLoop rest (sc - 10)
            (fb @ [''Using '' @ substitute sub @ '' instead of '' @ original sub
                     @ '' moderately affects the authentic flavor''])
      | significant \<Rightarrow>
          scoreLoop rest (sc - 20)
            (fb @ [''Using '' @ substitute sub @ '' instead of '' @ original sub
                     @ '' significantly changes the traditional taste'']))"

definition analyzeAuthenticityScore ::
  "'r CulturalRecipe_scheme \<Rightarrow> IngredientSubstitution list \<Rightarrow> AuthenticityAssessment" where
  "analyzeAuthenticityScore recipe usedSubstitutions =
     (case scoreLoop usedSubstitutions 100 [] of
        (sc, fb) \<Rightarrow> \<lparr>score = max 0 sc, feedback = fb\<rparr>)"

text \<open>
  The closed forms the loop is compared with: the penalty of a class, and the message of a
  substitution, which names the substitute first and the original second.
\<close>

fun penalty :: "FlavorImpact \<Rightarrow> int" where
  "penalty minimal = 5"
| "penalty moderate = 10"
| "penalty significant = 20"

fun impactPhrase :: "FlavorImpact \<Rightarrow> string" where
  "impactPhrase minimal = ''has minimal impact on authenticity''"
| "impactPhrase moderate = ''moderately affects the authentic flavor''"
| "impactPhrase significant = ''significantly changes the traditional taste''"

definition feedbackMessage :: "IngredientSubstitution \<Rightarrow> string" where
  "feedbackMessage sub =
     ''Using '' @ substitute sub @ '' instead of '' @ original sub @ '' ''
       @ impactPhrase (flavorImpact sub)"

definition countImpact :: "FlavorImpact \<Rightarrow> IngredientSubstitution list \<Rightarrow> int" where
  "countImpact f subs = int (length (filter (\<lambda>sub. flavorImpact sub = f) subs))"

subsection \<open>The pairing table and findComplementaryDishes\<close>

definition mkPairings ::
  "string list \<Rightarrow> string list \<Rightarrow> string list \<Rightarrow> string list \<Rightarrow> RegionalPairings" where
  "mkPairings m s d b = \<lparr>mainDishes = m, sideDishes = s, desserts = d, beverages = b\<rparr>"

definition pairings :: "(string \<times> RegionalPairings) list" where
  "pairings =
   [(''east_asia'', mkPairings
       [''Steamed Fish'', ''Stir-fried Vegetables'', ''Clay Pot Rice'']
       [''Pickled Vegetables'', ''Cold Salad'', ''Steamed Eggs'']
       [''Red Bean Soup'', ''Mango Pudding'', ''Egg Tarts'']
       [''Jasmine Tea'', ''Oolong Tea'', ''Rice Wine'']),
    (''southeast_asia'', mkPairings
       [''Green Curry'', ''Pad Thai'', ''Beef Rendang'']
       [''Som Tam'', ''Sticky Rice'', ''Roti Canai'']
       [''Mango Sticky Rice'', ''Thai Tea Ice Cream'', ''Kuih'']
       [''Thai Iced Tea'', ''Coconut Water'', ''Sugarcane Juice'']),
    (''south_asia'', mkPairings
       [''Butter Chicken'', ''Biryani'', ''Dal Makhani'']
       [''Naan'', ''Raita'', ''Chutney'']
       [''Gulab Jamun'', ''Kheer'', ''Jalebi'']
       [''Lassi'', ''Masala Chai'', ''Rooh Afza'']),
    (''middle_east'', mkPairings
       [''Lamb Shawarma'', ''Falafel'', ''Kebabs'']
       [''Hummus'', ''Tabbouleh'', ''Baba Ganoush'']
       [''Baklava'', ''Kunafa'', ''Turkish Delight'']
       [''Mint Tea'', ''Turkish Coffee'', ''Ayran'']),
    (''mediterranean'', mkPairings
       [''Paella'', ''Moussaka'', ''Risotto'']
       [''Greek Salad'', ''Bruschetta'', ''Dolmas'']
       [''Tiramisu'', ''Baklava'', ''Panna Cotta'']
       [''Wine'', ''Limoncello'', ''Ouzo'']),
    (''latin_america'', mkPairings
       [''Tacos'', ''Mole Poblano'', ''Feijoada'']
       [''Guacamole'', ''Elote'', ''Black Beans'']
       [''Tres Leches Cake'', ''Churros'', ''Flan'']
       [''Horchata'', ''Margarita'', ''Agua Fresca'']),
    (''caribbean'', mkPairings
       [''Jerk Chicken'', ''Curry Goat'', ''Ackee and Saltfish'']
       [''Rice and Peas'', ''Festival'', ''Plantains'']
       [''Rum Cake'', ''Sweet Potato Pudding'', ''Coconut Drops'']
       [''Rum Punch'', ''Sorrel Drink'', ''Ginger Beer'']),
    (''west_africa'', mkPairings
       [''Jollof Rice'', ''Egusi Soup'', ''Peanut Stew'']
       [''Fufu'', ''Fried Plantains'', ''Moin Moin'']
       [''Chin Chin'', ''Puff Puff'', ''Coconut Candy'']
       [''Palm Wine'', ''Bissap'', ''Ginger Drink'']),
    (''east_africa'', mkPairings
       [''Injera with Wat'', ''Nyama Choma'', ''Pilau Rice'']
       [''Chapati'', ''Sukuma Wiki'', ''Ugali'']
       [''Mandazi'', ''Kashata'', ''Maandazi'']
       [''Ethiopian Coffee'', ''Tangawizi'', ''Urwaga'']),
    (''north_africa'', mkPairings
       [''Couscous'', ''Tagine'', ''Shakshuka'']
       [''Harissa'', ''Zaalouk'', ''Batbout'']
       [''Makroud'', ''Msemen'', ''Basbousa'']
       [''Mint Tea'', ''Almond Milk'', ''Hibiscus Tea''])]"

text \<open>
  \<^verbatim>\<open>return pairings[region] || { mainDishes: [], ... }\<close>: an own entry and an inherited
  built-in are both truthy and returned as they are; only \<^verbatim>\<open>undefined\<close> is replaced by
  the all-empty object.
\<close>

definition getTraditionalPairings :: "string \<Rightarrow> RegionalPairings js_object" where
  "getTraditionalPairings regionCode =
     (case getProperty pairings regionCode of
        None \<Rightarrow> Entry (mkPairings [] [] [] [])
      | Some v \<Rightarrow> v)"

text \<open>
  The \<^verbatim>\<open>cuisine\<close> argument, \<^verbatim>\<open>{ region: string; keyIngredients: string[] }\<close>. Its field
  takes the name \<open>region\<close>, so the string parameter \<^verbatim>\<open>region\<close> of the table functions
  is written \<open>regionCode\<close>.
\<close>

record Cuisine =
  region :: string
  keyIngredients :: "string list"

definition findComplementaryDishes ::
  "'r CulturalRecipe_scheme \<Rightarrow> 'c Cuisine_scheme \<Rightarrow> RegionalPairings" where
  "findComplementaryDishes recipe cuisine =
     (let pairings = getTraditionalPairings (region cuisine) in
      \<lparr>mainDishes = fieldOrEmpty mainDishes pairings,
       sideDishes = fieldOrEmpty sideDishes pairings,
       desserts = fieldOrEmpty desserts pairings,
       beverages = fieldOrEmpty beverages pairings\<rparr>)"

subsection \<open>The etiquette table and getServingEtiquetteGuide\<close>

definition mkEtiquette ::
  "string list \<Rightarrow> string list \<Rightarrow> string list \<Rightarrow> string list \<Rightarrow> RegionalEtiquette" where
  "mkEtiquette p c t s = \<lparr>presentation = p, customs = c, taboos = t, servingOrder = s\<rparr>"

definition etiquette :: "(string \<times> RegionalEtiquette) list" where
  "etiquette =
   [(''east_asia'', mkEtiquette
       [''Serve rice in individual bowls'',
        ''Place shared dishes in the center'',
        ''Arrange food to highlight colors and textures'',
        ''Use small plates for individual portions'']
       [''Hold rice bowl close to mouth'',
        ''Use chopsticks correctly'',
        ''Pour tea for others before yourself'',
        ''Tap fingers as thanks when someone pours tea for you'']
       [''Don't stick chopsticks vertically in rice'',
        ''Don't pass food directly from chopsticks to chopsticks'',
        ''Don't point with chopsticks'',
        ''Don't flip fish over on the plate'']
       [''Soup first'',
        ''Rice and main dishes together'',
        ''Fruit or light dessert last'',
        ''Tea throughout the meal'']),
    (''southeast_asia'', mkEtiquette
       [''Serve food family-style on a raised platform'',
        ''Arrange dishes by spice level'',
        ''Include contrasting textures and flavors'',
        ''Garnish with fresh herbs and lime wedges'']
       [''Eat with right hand in some regions'',
        ''Use fork and spoon (fork to push, spoon to eat)'',
        ''Take small portions to sample everything'',
        ''Cool spicy dishes with plain rice'']
       [''Don't use left hand for eating'',
        ''Don't place serving spoons in your mouth'',
        ''Don't leave chopsticks crossed'',
        ''Don't waste rice'']
       [''All dishes served simultaneously'',
        ''Rice as the foundation'',
        ''Balance between spicy, sour, sweet and savory in one meal'',
        ''Fresh fruit for dessert'']),
    (''south_asia'', mkEtiquette
       [''Serve on thali plates with small compartments'',
        ''Balance colors and textures across the plate'',
        ''Place bread and rice separately'',
        ''Arrange accompaniments in small bowls'']
       [''Traditionally eat with right hand fingers'',
        ''Tear bread with fingers, not cutlery'',
        ''Share food and offer to others first'',
        ''Mix rice with curry using fingertips'']
       [''Don't use left hand for eating or passing food'',
        ''Don't waste food on your plate'',
        ''Don't start eating before elders or guests'',
        ''Don't lick fingers in formal settings'']
       [''Begin with something sweet in some regions'',
        ''Serve bread and rice with main dishes'',
        ''Sweet dish or paan to conclude the meal'',
        ''Yogurt or raita to balance spice'']),
    (''middle_east'', mkEtiquette
       [''Large central platters for sharing'',
        ''Multiple small mezze dishes'',
        ''Vibrant colors and garnishes'',
        ''Arrange bread in cloth-lined baskets'']
       [''Break bread with hands, never cut with knife'',
        ''Dip bread in shared dishes'',
        ''Serve elders and guests first'',
        ''Use right hand for eating'']
       [''Don't refuse offered food (take at least a small portion)'',
        ''Don't eat with left hand'',
        ''Don't rush through meals'',
        ''Don't blow on hot food'']
       [''Mezze (small appetizers) first'',
        ''Main dishes with bread'',
        ''Sweet tea and desserts after the meal'',
        ''Coffee to conclude'']),
    (''mediterranean'', mkEtiquette
       [''Simple, rustic presentation'',
        ''Fresh herbs as garnish'',
        ''Olive oil drizzled as finishing touch'',
        ''Colorful vegetable arrangements'']
       [''Bread accompanies the entire meal'',
        ''Share multiple dishes family-style'',
        ''Use bread to soak up sauces'',
        ''Leisurely pace with conversation'']
       [''Don't rush the meal'',
        ''Don't waste bread'',
        ''Don't add cheese to seafood pasta in Italy'',
        ''Don't ask for additional seasoning before tasting'']
       [''Antipasti/appetizers'',
        ''Pasta or rice dish'',
        ''Main protein dish'',
        ''Salad course'',
        ''Cheese and fruit'',
        ''Dessert and coffee'']),
    (''latin_america'', mkEtiquette
       [''Colorful arrangements'',
        ''Fresh garnishes like cilantro and lime'',
        ''Serve with traditional salsas on the side'',
        ''Family-style large platters'']
       [''Wait for eldest to begin eating'',
        ''Keep hands visible on table, not in lap'',
        ''Use tortillas or bread to scoop food'',
        ''Express appreciation for the food'']
       [''Don't eat tacos with fork and knife'',
        ''Don't add hot sauce before tasting'',
        ''Don't refuse offered food in someone's home'',
        ''Don't leave the table until everyone is finished'']
       [''Soup or light appetizer'',
        ''Main course with sides'',
        ''Dessert'',
        ''Coffee or digestif''])]"

definition getRegionalEtiquette :: "string \<Rightarrow> RegionalEtiquette js_object" where
  "getRegionalEtiquette regionCode =
     (case getProperty etiquette regionCode of
        None \<Rightarrow> Entry (mkEtiquette [] [] [] [])
      | Some v \<Rightarrow> v)"

definition getServingEtiquetteGuide ::
  "'r CulturalRecipe_scheme \<Rightarrow> string \<Rightarrow> RegionalEtiquette" where
  "getServingEtiquetteGuide recipe regionCode =
     (let etiquette = getRegionalEtiquette regionCode in
      \<lparr>presentation = fieldOrEmpty presentation etiquette,
       customs = fieldOrEmpty customs etiquette,
       taboos = fieldOrEmpty taboos etiquette,
       servingOrder = fieldOrEmpty servingOrder etiquette\<rparr>)"

subsection \<open>Closed forms of the substitution loop\<close>

text \<open>
  What one round of the loop appends when it does not throw, and the test for the round
  that throws.
\<close>

definition emitted :: "'p PantryItem_scheme list \<Rightarrow> string \<Rightarrow> IngredientSubstitution list" where
  "emitted pantryItems ingredient =
     (case map_of getSubstitutionRules (toLowerCase ingredient) of
        None \<Rightarrow> []
      | Some rule \<Rightarrow>
          [\<lparr>original = ingredient,
            substitute =
              (case find (inPantry pantryItems) (substitutes rule) of
                 Some s \<Rightarrow> s
               | None \<Rightarrow> hd (substitutes rule)),
            subNotes = ruleNotes rule,
            flavorImpact = ruleFlavorImpact rule\<rparr>])"

definition readsBuiltin :: "string \<Rightarrow> bool" where
  "readsBuiltin ingredient =
     (getProperty getSubstitutionRules (toLowerCase ingredient) = Some Builtin)"

definition allEmptyPairings :: RegionalPairings where
  "allEmptyPairings = \<lparr>mainDishes = [], sideDishes = [], desserts = [], beverages = []\<rparr>"

definition allEmptyEtiquette :: RegionalEtiquette where
  "allEmptyEtiquette = \<lparr>presentation = [], customs = [], taboos = [], servingOrder = []\<rparr>"

section \<open>Properties\<close>

subsection \<open>The loops in closed form\<close>

lemma rules_keys:
  "map fst getSubstitutionRules =
     [''kaffir lime leaves'', ''fish sauce'', ''gochujang'', ''lemongrass'', ''tahini'',
      ''ghee'', ''sumac'', ''oyster sauce'', ''galangal'', ''tamarind paste'',
      ''shiso leaves'', ''miso paste'', ''za'atar'', ''plantains'', ''paneer'']"
  by (simp add: getSubstitutionRules_def)

lemma rules_have_candidates:
  "list_all (\<lambda>(k, rule). substitutes rule \<noteq> [] \<and> list_all (\<lambda>s. s \<noteq> []) (substitutes rule)) getSubstitutionRules"
  by (simp add: getSubstitutionRules_def mkRule_def)

lemma rule_candidates:
  assumes "map_of getSubstitutionRules k = Some rule"
  shows "substitutes rule \<noteq> []" and "[] \<notin> set (substitutes rule)"
proof -
  from assms have "(k, rule) \<in> set getSubstitutionRules" by (rule map_of_SomeD)
  with rules_have_candidates have "substitutes rule \<noteq> [] \<and> list_all (\<lambda>s. s \<noteq> []) (substitutes rule)"
    by (auto simp only: list_all_iff)
  then show "substitutes rule \<noteq> []" and "[] \<notin> set (substitutes rule)"
    by (auto simp: list_all_iff)
qed

lemma chooseSubstitute_eq:
  assumes "map_of getSubstitutionRules k = Some rule"
  shows "chooseSubstitute rule pantryItems =
           (case find (inPantry pantryItems) (substitutes rule) of
              Some s \<Rightarrow> s | None \<Rightarrow> hd (substitutes rule))"
proof (cases "find (inPantry pantryItems) (substitutes rule)")
  case None
  then show ?thesis by (simp add: chooseSubstitute_def)
next
  case (Some s)
  then have "s \<in> set (substitutes rule)" by (auto simp: find_Some_iff)
  with rule_candidates(2)[OF assms] have "s \<noteq> []" by auto
  with Some show ?thesis by (simp add: chooseSubstitute_def)
qed

lemma getProperty_cases:
  "(getProperty obj key = Some (Entry v)) = (map_of obj key = Some v)"
  "(getProperty obj key = Some Builtin) = (map_of obj key = None \<and> key \<in> set objectPrototypeKeys)"
  "(getProperty obj key = None) = (map_of obj key = None \<and> key \<notin> set objectPrototypeKeys)"
  by (auto simp: getProperty_def split: option.splits)

lemma round_skips:
  assumes "getProperty getSubstitutionRules (toLowerCase ingredient) = None"
  shows "\<not> readsBuiltin ingredient" and "emitted pantryItems ingredient = []"
  using assms by (simp_all add: readsBuiltin_def emitted_def getProperty_cases)

lemma round_pushes:
  assumes "getProperty getSubstitutionRules (toLowerCase ingredient) = Some (Entry rule)"
  shows "\<not> readsBuiltin ingredient"
    and "emitted pantryItems ingredient =
           [\<lparr>original = ingredient, substitute = chooseSubstitute rule pantryItems,
             subNotes = ruleNotes rule, flavorImpact = ruleFlavorImpact rule\<rparr>]"
proof -
  from assms have m: "map_of getSubstitutionRules (toLowerCase ingredient) = Some rule"
    by (simp add: getProperty_cases)
  from assms show "\<not> readsBuiltin ingredient" by (simp add: readsBuiltin_def)
  from m show "emitted pantryItems ingredient =
           [\<lparr>original = ingredient, substitute = chooseSubstitute rule pantryItems,
             subNotes = ruleNotes rule, flavorImpact = ruleFlavorImpact rule\<rparr>]"
    by (simp add: emitted_def chooseSubstitute_eq[OF m])
qed

lemma substitutionLoop_eq:
  "substitutionLoop pantryItems ingredients acc =
     (if list_ex readsBuiltin ingredients then Inl TypeError
      else Inr (acc @ concat (map (emitted pantryItems) ingredients)))"
proof (induction ingredients arbitrary: acc)
  case Nil
  then show ?case by simp
next
  case (Cons ingredient rest)
  show ?case
  proof (cases "getProperty getSubstitutionRules (toLowerCase ingredient)")
    case None
    then show ?thesis
      by (simp add: Cons.IH round_skips[OF None])
  next
    case (Some v)
    show ?thesis
    proof (cases v)
      case (Entry rule)
      with Some have e: "getProperty getSubstitutionRules (toLowerCase ingredient) = Some (Entry rule)"
        by simp
      then show ?thesis
        by (simp add: Cons.IH round_pushes[OF e])
    next
      case Builtin
      with Some show ?thesis by (simp add: readsBuiltin_def)
    qed
  qed
qed

lemma findIngredientSubstitutes_eq:
  "findIngredientSubstitutes recipe pantryItems userRegion =
     (if list_ex readsBuiltin (authenticIngredients recipe) then Inl TypeError
      else Inr (concat (map (emitted pantryItems) (authenticIngredients recipe))))"
  by (simp add: findIngredientSubstitutes_def substitutionLoop_eq)

lemma scoreLoop_eq:
  "scoreLoop subs sc fb =
     (sc - sum_list (map (\<lambda>sub. penalty (flavorImpact sub)) subs), fb @ map feedbackMessage subs)"
  by (induction subs arbitrary: sc fb)
     (auto simp: feedbackMessage_def split: FlavorImpact.splits)

lemma penalties_by_class:
  "sum_list (map (\<lambda>sub. penalty (flavorImpact sub)) subs) =
     5 * countImpact minimal subs + 10 * countImpact moderate subs
       + 20 * countImpact significant subs"
proof (induction subs)
  case Nil
  then show ?case by (simp add: countImpact_def)
next
  case (Cons sub subs)
  then show ?case by (cases "flavorImpact sub") (simp_all add: countImpact_def)
qed

lemma analyzeAuthenticityScore_eq:
  "analyzeAuthenticityScore recipe subs =
     \<lparr>score = max 0 (100 - sum_list (map (\<lambda>sub. penalty (flavorImpact sub)) subs)),
      feedback = map feedbackMessage subs\<rparr>"
  by (simp add: analyzeAuthenticityScore_def scoreLoop_eq)

subsection \<open>Authenticity scoring\<close>

text \<open>
  Claim C2. For every sequence of substitutions, the score returned by
  \<open>analyzeAuthenticityScore\<close> is 100 minus 5 for each minimal, 10 for each moderate and
  20 for each significant substitution, clamped below at 0; the feedback holds exactly one
  string per substitution, in input order, each the template of its class around the
  substitute and the original; impacts minimal, moderate, significant give the score 65
  with three feedback strings; and the score is never negative.
\<close>

theorem analyzeAuthenticityScore_closed_form:
  "score (analyzeAuthenticityScore recipe subs) =
     max 0 (100 - 5 * countImpact minimal subs - 10 * countImpact moderate subs
              - 20 * countImpact significant subs)
   \<and> feedback (analyzeAuthenticityScore recipe subs) = map feedbackMessage subs
   \<and> length (feedback (analyzeAuthenticityScore recipe subs)) = length subs
   \<and> 0 \<le> score (analyzeAuthenticityScore recipe subs)
   \<and> (map flavorImpact subs = [minimal, moderate, significant] \<longrightarrow>
        score (analyzeAuthenticityScore recipe subs) = 65
        \<and> length (feedback (analyzeAuthenticityScore recipe subs)) = 3)"
proof -
  let ?r = "analyzeAuthenticityScore recipe subs"
  have sc: "score ?r = max 0 (100 - sum_list (map (\<lambda>sub. penalty (flavorImpact sub)) subs))"
    by (simp add: analyzeAuthenticityScore_eq)
  have fb: "feedback ?r = map feedbackMessage subs"
    by (simp add: analyzeAuthenticityScore_eq)
  have c1: "score ?r =
     max 0 (100 - 5 * countImpact minimal subs - 10 * countImpact moderate subs
              - 20 * countImpact significant subs)"
    unfolding sc penalties_by_class by (simp add: algebra_simps)
  have c4: "0 \<le> score ?r" unfolding sc by simp
  have c5: "score ?r = 65 \<and> length (feedback ?r) = 3"
    if h: "map flavorImpact subs = [minimal, moderate, significant]"
  proof -
    have "sum_list (map (\<lambda>sub. penalty (flavorImpact sub)) subs) =
            sum_list (map penalty (map flavorImpact subs))"
      by (simp add: comp_def)
    also have "\<dots> = 35" unfolding h by simp
    finally have "score ?r = 65" unfolding sc by simp
    moreover have "length (feedback ?r) = length (map flavorImpact subs)"
      unfolding fb by simp
    ultimately show ?thesis unfolding h by simp
  qed
  from c1 fb c4 c5 show ?thesis by simp
qed

theorem analyzeAuthenticityScore_closed_form_witness:
  "map flavorImpact
     [\<lparr>original = ''tahini'', substitute = ''smooth peanut butter'', subNotes = [],
        flavorImpact = minimal\<rparr>,
      \<lparr>original = ''sumac'', substitute = ''lemon zest'', subNotes = [],
        flavorImpact = moderate\<rparr>,
      \<lparr>original = ''fish sauce'', substitute = ''soy sauce with salt'', subNotes = [],
        flavorImpact = significant\<rparr>] = [minimal, moderate, significant]
   \<and> analyzeAuthenticityScore \<lparr>authenticIngredients = [''tahini'', ''sumac'', ''fish sauce'']\<rparr>
     [\<lparr>original = ''tahini'', substitute = ''smooth peanut butter'', subNotes = [],
        flavorImpact = minimal\<rparr>,
      \<lparr>original = ''sumac'', substitute = ''lemon zest'', subNotes = [],
        flavorImpact = moderate\<rparr>,
      \<lparr>original = ''fish sauce'', substitute = ''soy sauce with salt'', subNotes = [],
        flavorImpact = significant\<rparr>] =
     \<lparr>score = 65,
      feedback =
        [''Using smooth peanut butter instead of tahini has minimal impact on authenticity'',
         ''Using lemon zest instead of sumac moderately affects the authentic flavor'',
         ''Using soy sauce with salt instead of fish sauce significantly changes the traditional taste'']\<rparr>"
  using analyzeAuthenticityScore_closed_form
    [of "\<lparr>authenticIngredients = [''tahini'', ''sumac'', ''fish sauce'']\<rparr>"
        "[\<lparr>original = ''tahini'', substitute = ''smooth peanut butter'', subNotes = [],
            flavorImpact = minimal\<rparr>,
          \<lparr>original = ''sumac'', substitute = ''lemon zest'', subNotes = [],
            flavorImpact = moderate\<rparr>,
          \<lparr>original = ''fish sauce'', substitute = ''soy sauce with salt'', subNotes = [],
            flavorImpact = significant\<rparr>]"]
  by (simp add: feedbackMessage_def)

subsection \<open>The two region tables\<close>

lemma pairings_keys:
  "map fst pairings =
     [''east_asia'', ''southeast_asia'', ''south_asia'', ''middle_east'', ''mediterranean'',
      ''latin_america'', ''caribbean'', ''west_africa'', ''east_africa'', ''north_africa'']"
  by (simp add: pairings_def)

lemma etiquette_keys:
  "map fst etiquette =
     [''east_asia'', ''southeast_asia'', ''south_asia'', ''middle_east'', ''mediterranean'',
      ''latin_america'']"
  by (simp add: etiquette_def)

lemma pairings_sizes:
  "list_all (\<lambda>(k, p). length (mainDishes p) = 3 \<and> length (sideDishes p) = 3
       \<and> length (desserts p) = 3 \<and> length (beverages p) = 3) pairings"
  by (simp add: pairings_def mkPairings_def)

lemma etiquette_sizes:
  "list_all (\<lambda>(k, e). 3 \<le> length (presentation e) \<and> length (presentation e) \<le> 6
       \<and> 3 \<le> length (customs e) \<and> length (customs e) \<le> 6
       \<and> 3 \<le> length (taboos e) \<and> length (taboos e) \<le> 6
       \<and> 3 \<le> length (servingOrder e) \<and> length (servingOrder e) \<le> 6) etiquette"
  by (simp add: etiquette_def mkEtiquette_def)

lemma pairings_distinct: "distinct (map fst pairings)"
  unfolding pairings_keys by simp

lemma etiquette_distinct: "distinct (map fst etiquette)"
  unfolding etiquette_keys by simp

lemma findComplementaryDishes_own:
  assumes "map_of pairings (region cuisine) = Some p"
  shows "findComplementaryDishes recipe cuisine = p"
  using assms by (simp add: findComplementaryDishes_def getTraditionalPairings_def getProperty_def)

lemma findComplementaryDishes_other:
  assumes "map_of pairings (region cuisine) = None"
  shows "findComplementaryDishes recipe cuisine = allEmptyPairings"
  using assms
  by (simp add: findComplementaryDishes_def getTraditionalPairings_def getProperty_def
      allEmptyPairings_def mkPairings_def)

lemma getServingEtiquetteGuide_own:
  assumes "map_of etiquette regionCode = Some e"
  shows "getServingEtiquetteGuide recipe regionCode = e"
  using assms by (simp add: getServingEtiquetteGuide_def getRegionalEtiquette_def getProperty_def)

lemma getServingEtiquetteGuide_other:
  assumes "map_of etiquette regionCode = None"
  shows "getServingEtiquetteGuide recipe regionCode = allEmptyEtiquette"
  using assms
  by (simp add: getServingEtiquetteGuide_def getRegionalEtiquette_def getProperty_def
      allEmptyEtiquette_def mkEtiquette_def)

subsection \<open>Pairing lookup\<close>

text \<open>
  Claim C6. \<open>findComplementaryDishes\<close> looks the region code up by exact, case-sensitive
  match in a table of exactly ten regions; for \<open>east_asia\<close> it returns the four lists as
  enumerated, main dishes Steamed Fish, Stir-fried Vegetables, Clay Pot Rice; every region
  code that is not a key of the table (\<open>atlantis\<close>, or \<open>East_Asia\<close> with capitals) gives
  four empty lists; and every entry of the table holds exactly three names in each of its
  four categories.
\<close>

theorem pairing_lookup:
  "map fst pairings =
     [''east_asia'', ''southeast_asia'', ''south_asia'', ''middle_east'', ''mediterranean'',
      ''latin_america'', ''caribbean'', ''west_africa'', ''east_africa'', ''north_africa'']
   \<and> distinct (map fst pairings)
   \<and> ((k, p) \<in> set pairings \<and> region cuisine = k \<longrightarrow>
        findComplementaryDishes recipe cuisine = p
        \<and> length (mainDishes p) = 3 \<and> length (sideDishes p) = 3
        \<and> length (desserts p) = 3 \<and> length (beverages p) = 3)
   \<and> (region cuisine \<notin> set (map fst pairings) \<longrightarrow>
        findComplementaryDishes recipe cuisine = allEmptyPairings)
   \<and> (region cuisine = ''east_asia'' \<longrightarrow>
        findComplementaryDishes recipe cuisine =
          \<lparr>mainDishes = [''Steamed Fish'', ''Stir-fried Vegetables'', ''Clay Pot Rice''],
           sideDishes = [''Pickled Vegetables'', ''Cold Salad'', ''Steamed Eggs''],
           desserts = [''Red Bean Soup'', ''Mango Pudding'', ''Egg Tarts''],
           beverages = [''Jasmine Tea'', ''Oolong Tea'', ''Rice Wine'']\<rparr>)
   \<and> (region cuisine = ''atlantis'' \<or> region cuisine = ''East_Asia'' \<longrightarrow>
        findComplementaryDishes recipe cuisine = allEmptyPairings)"
proof -
  have own: "findComplementaryDishes recipe cuisine = p
        \<and> length (mainDishes p) = 3 \<and> length (sideDishes p) = 3
        \<and> length (desserts p) = 3 \<and> length (beverages p) = 3"
    if "(k, p) \<in> set pairings" and "region cuisine = k"
  proof -
    from that pairings_distinct have "map_of pairings (region cuisine) = Some p"
      by simp
    then have "findComplementaryDishes recipe cuisine = p"
      by (rule findComplementaryDishes_own)
    moreover from that(1) pairings_sizes have "length (mainDishes p) = 3 \<and> length (sideDishes p) = 3
        \<and> length (desserts p) = 3 \<and> length (beverages p) = 3"
      by (auto simp only: list_all_iff)
    ultimately show ?thesis by simp
  qed
  have other: "findComplementaryDishes recipe cuisine = allEmptyPairings"
    if "region cuisine \<notin> set (map fst pairings)"
  proof -
    from that have "map_of pairings (region cuisine) = None"
      by (simp add: map_of_eq_None_iff)
    then show ?thesis by (rule findComplementaryDishes_other)
  qed
  have ea: "findComplementaryDishes recipe cuisine =
          \<lparr>mainDishes = [''Steamed Fish'', ''Stir-fried Vegetables'', ''Clay Pot Rice''],
           sideDishes = [''Pickled Vegetables'', ''Cold Salad'', ''Steamed Eggs''],
           desserts = [''Red Bean Soup'', ''Mango Pudding'', ''Egg Tarts''],
           beverages = [''Jasmine Tea'', ''Oolong Tea'', ''Rice Wine'']\<rparr>"
    if "region cuisine = ''east_asia''"
  proof -
    have "map_of pairings ''east_asia'' = Some (mkPairings
       [''Steamed Fish'', ''Stir-fried Vegetables'', ''Clay Pot Rice'']
       [''Pickled Vegetables'', ''Cold Salad'', ''Steamed Eggs'']
       [''Red Bean Soup'', ''Mango Pudding'', ''Egg Tarts'']
       [''Jasmine Tea'', ''Oolong Tea'', ''Rice Wine''])"
      by (simp add: pairings_def)
    with that show ?thesis
      by (simp add: findComplementaryDishes_own mkPairings_def)
  qed
  have unknown: "findComplementaryDishes recipe cuisine = allEmptyPairings"
    if "region cuisine = ''atlantis'' \<or> region cuisine = ''East_Asia''"
  proof -
    from that have "region cuisine \<notin> set (map fst pairings)"
      unfolding pairings_keys by auto
    then show ?thesis by (rule other)
  qed
  from pairings_keys pairings_distinct own other ea unknown show ?thesis by blast
qed

theorem pairing_lookup_witness:
  "(''west_africa'',
      \<lparr>mainDishes = [''Jollof Rice'', ''Egusi Soup'', ''Peanut Stew''],
       sideDishes = [''Fufu'', ''Fried Plantains'', ''Moin Moin''],
       desserts = [''Chin Chin'', ''Puff Puff'', ''Coconut Candy''],
       beverages = [''Palm Wine'', ''Bissap'', ''Ginger Drink'']\<rparr>) \<in> set pairings
   \<and> findComplementaryDishes \<lparr>authenticIngredients = [''plantains'']\<rparr>
       \<lparr>region = ''west_africa'', keyIngredients = [''peanut'']\<rparr> =
     \<lparr>mainDishes = [''Jollof Rice'', ''Egusi Soup'', ''Peanut Stew''],
      sideDishes = [''Fufu'', ''Fried Plantains'', ''Moin Moin''],
      desserts = [''Chin Chin'', ''Puff Puff'', ''Coconut Candy''],
      beverages = [''Palm Wine'', ''Bissap'', ''Ginger Drink'']\<rparr>
   \<and> ''constructor'' \<notin> set (map fst pairings)
   \<and> findComplementaryDishes \<lparr>authenticIngredients = []\<rparr>
       \<lparr>region = ''constructor'', keyIngredients = []\<rparr> =
     \<lparr>mainDishes = [], sideDishes = [], desserts = [], beverages = []\<rparr>"
proof -
  let ?p = "\<lparr>mainDishes = [''Jollof Rice'', ''Egusi Soup'', ''Peanut Stew''],
       sideDishes = [''Fufu'', ''Fried Plantains'', ''Moin Moin''],
       desserts = [''Chin Chin'', ''Puff Puff'', ''Coconut Candy''],
       beverages = [''Palm Wine'', ''Bissap'', ''Ginger Drink'']\<rparr>"
  have m: "(''west_africa'', ?p) \<in> set pairings"
    by (simp add: pairings_def mkPairings_def)
  have n: "''constructor'' \<notin> set (map fst pairings)"
    by (simp add: pairings_def)
  then have n': "region \<lparr>region = ''constructor'', keyIngredients = []\<rparr>
      \<notin> set (map fst pairings)"
    by simp
  have own: "findComplementaryDishes \<lparr>authenticIngredients = [''plantains'']\<rparr>
       \<lparr>region = ''west_africa'', keyIngredients = [''peanut'']\<rparr> = ?p"
    using m pairing_lookup [of "''west_africa''" ?p
          "\<lparr>region = ''west_africa'', keyIngredients = [''peanut'']\<rparr>"
          "\<lparr>authenticIngredients = [''plantains'']\<rparr>"]
    by simp
  have other: "findComplementaryDishes \<lparr>authenticIngredients = []\<rparr>
       \<lparr>region = ''constructor'', keyIngredients = []\<rparr> =
     \<lparr>mainDishes = [], sideDishes = [], desserts = [], beverages = []\<rparr>"
    using n' pairing_lookup [of "''west_africa''" ?p
          "\<lparr>region = ''constructor'', keyIngredients = []\<rparr>"
          "\<lparr>authenticIngredients = []\<rparr>"]
    unfolding allEmptyPairings_def by blast
  from m own n other show ?thesis by simp
qed

subsection \<open>Etiquette lookup\<close>

text \<open>
  Claim C7. The etiquette table has its own keys, six regions only; \<open>west_africa\<close>, a key
  of the pairing table, is not among them and \<open>getServingEtiquetteGuide\<close> returns four
  empty lists for it, as for every region code outside the six; and every entry of the
  table holds between 3 and 6 strings in each of its four categories.
\<close>

theorem etiquette_lookup:
  "map fst etiquette =
     [''east_asia'', ''southeast_asia'', ''south_asia'', ''middle_east'', ''mediterranean'',
      ''latin_america'']
   \<and> distinct (map fst etiquette)
   \<and> ''west_africa'' \<in> set (map fst pairings)
   \<and> getServingEtiquetteGuide recipe ''west_africa'' = allEmptyEtiquette
   \<and> (regionCode \<notin> set (map fst etiquette) \<longrightarrow>
        getServingEtiquetteGuide recipe regionCode = allEmptyEtiquette)
   \<and> ((k, e) \<in> set etiquette \<longrightarrow>
        getServingEtiquetteGuide recipe k = e
        \<and> 3 \<le> length (presentation e) \<and> length (presentation e) \<le> 6
        \<and> 3 \<le> length (customs e) \<and> length (customs e) \<le> 6
        \<and> 3 \<le> length (taboos e) \<and> length (taboos e) \<le> 6
        \<and> 3 \<le> length (servingOrder e) \<and> length (servingOrder e) \<le> 6)"
proof -
  have other: "getServingEtiquetteGuide recipe r = allEmptyEtiquette"
    if "r \<notin> set (map fst etiquette)" for r
  proof -
    from that have "map_of etiquette r = None"
      by (simp add: map_of_eq_None_iff)
    then show ?thesis by (rule getServingEtiquetteGuide_other)
  qed
  have wa: "''west_africa'' \<in> set (map fst pairings)"
    unfolding pairings_keys by simp
  have "''west_africa'' \<notin> set (map fst etiquette)"
    unfolding etiquette_keys by simp
  then have wa_empty: "getServingEtiquetteGuide recipe ''west_africa'' = allEmptyEtiquette"
    by (rule other)
  have own: "getServingEtiquetteGuide recipe k = e
        \<and> 3 \<le> length (presentation e) \<and> length (presentation e) \<le> 6
        \<and> 3 \<le> length (customs e) \<and> length (customs e) \<le> 6
        \<and> 3 \<le> length (taboos e) \<and> length (taboos e) \<le> 6
        \<and> 3 \<le> length (servingOrder e) \<and> length (servingOrder e) \<le> 6"
    if "(k, e) \<in> set etiquette"
  proof -
    from that etiquette_distinct have "map_of etiquette k = Some e"
      by simp
    then have "getServingEtiquetteGuide recipe k = e"
      by (rule getServingEtiquetteGuide_own)
    moreover from that etiquette_sizes have
      "3 \<le> length (presentation e) \<and> length (presentation e) \<le> 6
        \<and> 3 \<le> length (customs e) \<and> length (customs e) \<le> 6
        \<and> 3 \<le> length (taboos e) \<and> length (taboos e) \<le> 6
        \<and> 3 \<le> length (servingOrder e) \<and> length (servingOrder e) \<le> 6"
      by (auto simp only: list_all_iff)
    ultimately show ?thesis by simp
  qed
  from etiquette_keys etiquette_distinct wa wa_empty other own show ?thesis by blast
qed

theorem etiquette_lookup_witness:
  "getServingEtiquetteGuide \<lparr>authenticIngredients = [''tahini'']\<rparr> ''caribbean'' =
     \<lparr>presentation = [], customs = [], taboos = [], servingOrder = []\<rparr>
   \<and> getServingEtiquetteGuide \<lparr>authenticIngredients = [''tahini'']\<rparr> ''latin_america'' =
     \<lparr>presentation =
        [''Colorful arrangements'',
         ''Fresh garnishes like cilantro and lime'',
         ''Serve with traditional salsas on the side'',
         ''Family-style large platters''],
      customs =
        [''Wait for eldest to begin eating'',
         ''Keep hands visible on table, not in lap'',
         ''Use tortillas or bread to scoop food'',
         ''Express appreciation for the food''],
      taboos =
        [''Don't eat tacos with fork and knife'',
         ''Don't add hot sauce before tasting'',
         ''Don't refuse offered food in someone's home'',
         ''Don't leave the table until everyone is finished''],
      servingOrder =
        [''Soup or light appetizer'',
         ''Main course with sides'',
         ''Dessert'',
         ''Coffee or digestif'']\<rparr>"
proof -
  have m: "(''latin_america'',
     \<lparr>presentation =
        [''Colorful arrangements'',
         ''Fresh garnishes like cilantro and lime'',
         ''Serve with traditional salsas on the side'',
         ''Family-style large platters''],
      customs =
        [''Wait for eldest to begin eating'',
         ''Keep hands visible on table, not in lap'',
         ''Use tortillas or bread to scoop food'',
         ''Express appreciation for the food''],
      taboos =
        [''Don't eat tacos with fork and knife'',
         ''Don't add hot sauce before tasting'',
         ''Don't refuse offered food in someone's home'',
         ''Don't leave the table until everyone is finished''],
      servingOrder =
        [''Soup or light appetizer'',
         ''Main course with sides'',
         ''Dessert'',
         ''Coffee or digestif'']\<rparr>) \<in> set etiquette"
    by (simp add: etiquette_def mkEtiquette_def)
  have n: "''caribbean'' \<notin> set (map fst etiquette)"
    by (simp add: etiquette_def)
  have own: "getServingEtiquetteGuide \<lparr>authenticIngredients = [''tahini'']\<rparr> ''latin_america'' =
     \<lparr>presentation =
        [''Colorful arrangements'',
         ''Fresh garnishes like cilantro and lime'',
         ''Serve with traditional salsas on the side'',
         ''Family-style large platters''],
      customs =
        [''Wait for eldest to begin eating'',
         ''Keep hands visible on table, not in lap'',
         ''Use tortillas or bread to scoop food'',
         ''Express appreciation for the food''],
      taboos =
        [''Don't eat tacos with fork and knife'',
         ''Don't add hot sauce before tasting'',
         ''Don't refuse offered food in someone's home'',
         ''Don't leave the table until everyone is finished''],
      servingOrder =
        [''Soup or light appetizer'',
         ''Main course with sides'',
         ''Dessert'',
         ''Coffee or digestif'']\<rparr>"
    using m etiquette_lookup [of "\<lparr>authenticIngredients = [''tahini'']\<rparr>" "''caribbean''"
        "''latin_america''"]
    by blast
  have other: "getServingEtiquetteGuide \<lparr>authenticIngredients = [''tahini'']\<rparr> ''caribbean'' =
     \<lparr>presentation = [], customs = [], taboos = [], servingOrder = []\<rparr>"
    using n etiquette_lookup [of "\<lparr>authenticIngredients = [''tahini'']\<rparr>" "''caribbean''"
        "''latin_america''" "allEmptyEtiquette"]
    unfolding allEmptyEtiquette_def by blast
  from own other show ?thesis by simp
qed

subsection \<open>String primitives and the inherited keys\<close>

text \<open>
  \<open>includes_str\<close> is the contiguous-sublist test of the library, and a lowercased string
  holds no ASCII capital, so of the inherited property names only \<^verbatim>\<open>constructor\<close> and
  \<^verbatim>\<open>__proto__\<close> can be reached through \<open>toLowerCase\<close>.
\<close>

lemma includes_str_sublist: "includes_str s t = sublist t s"
proof (induction s)
  case Nil
  show ?case by (cases t) simp_all
next
  case (Cons d s)
  have p: "startsWith u v = prefix v u" for u v
    by (induction u v rule: startsWith.induct) auto
  show ?case
  proof (cases t)
    case Nil
    then show ?thesis by simp
  next
    case (Cons c t')
    then show ?thesis using Cons.IH by (auto simp: p sublist_Cons_right)
  qed
qed

lemma toLowerCaseUnit_not_capital:
  "\<not> (65 \<le> (of_char (toLowerCaseUnit c) :: nat) \<and> (of_char (toLowerCaseUnit c) :: nat) \<le> 90)"
proof -
  have b: "(of_char c :: nat) < 256" by (rule of_char_mod_256 [THEN subst]) simp
  show ?thesis
    using b by (auto simp: toLowerCaseUnit_def Let_def)
qed

lemma toLowerCase_no_capital:
  assumes "c \<in> set (toLowerCase s)"
  shows "\<not> (65 \<le> (of_char c :: nat) \<and> (of_char c :: nat) \<le> 90)"
  using assms toLowerCaseUnit_not_capital by (auto simp: toLowerCase_def)

lemma lowered_prototype_key:
  "(toLowerCase s \<in> set objectPrototypeKeys) =
     (toLowerCase s = ''constructor'' \<or> toLowerCase s = ''__proto__'')"
proof -
  have no: "toLowerCase s \<noteq> k" if "c \<in> set k" and "65 \<le> (of_char c :: nat) \<and> (of_char c :: nat) \<le> 90" for k c
    using that toLowerCase_no_capital by blast
  have "toLowerCase s \<noteq> ''__defineGetter__''" by (rule no [of "CHR ''G''"]) simp_all
  moreover have "toLowerCase s \<noteq> ''__defineSetter__''" by (rule no [of "CHR ''S''"]) simp_all
  moreover have "toLowerCase s \<noteq> ''hasOwnProperty''" by (rule no [of "CHR ''O''"]) simp_all
  moreover have "toLowerCase s \<noteq> ''__lookupGetter__''" by (rule no [of "CHR ''G''"]) simp_all
  moreover have "toLowerCase s \<noteq> ''__lookupSetter__''" by (rule no [of "CHR ''S''"]) simp_all
  moreover have "toLowerCase s \<noteq> ''isPrototypeOf''" by (rule no [of "CHR ''P''"]) simp_all
  moreover have "toLowerCase s \<noteq> ''propertyIsEnumerable''" by (rule no [of "CHR ''I''"]) simp_all
  moreover have "toLowerCase s \<noteq> ''toString''" by (rule no [of "CHR ''S''"]) simp_all
  moreover have "toLowerCase s \<noteq> ''valueOf''" by (rule no [of "CHR ''O''"]) simp_all
  moreover have "toLowerCase s \<noteq> ''toLocaleString''" by (rule no [of "CHR ''L''"]) simp_all
  ultimately show ?thesis by (auto simp: objectPrototypeKeys_def)
qed

lemma prototype_keys_not_rules:
  "list_all (\<lambda>k. map_of getSubstitutionRules k = None) objectPrototypeKeys"
  by (simp add: objectPrototypeKeys_def getSubstitutionRules_def)

lemma readsBuiltin_iff:
  "readsBuiltin ingredient =
     (toLowerCase ingredient = ''constructor'' \<or> toLowerCase ingredient = ''__proto__'')"
proof -
  have "map_of getSubstitutionRules k = None" if "k \<in> set objectPrototypeKeys" for k
    using that prototype_keys_not_rules by (auto simp only: list_all_iff)
  then have "readsBuiltin ingredient = (toLowerCase ingredient \<in> set objectPrototypeKeys)"
    by (auto simp: readsBuiltin_def getProperty_cases)
  then show ?thesis by (simp only: lowered_prototype_key)
qed

subsection \<open>What the substitution loop emits\<close>

lemma emitted_entry:
  assumes "s \<in> set (emitted pantryItems ingredient)"
  shows "original s = ingredient
     \<and> (\<exists>rule. map_of getSubstitutionRules (toLowerCase ingredient) = Some rule
           \<and> substitute s \<in> set (substitutes rule)
           \<and> subNotes s = ruleNotes rule
           \<and> flavorImpact s = ruleFlavorImpact rule)"
proof (cases "map_of getSubstitutionRules (toLowerCase ingredient)")
  case None
  with assms show ?thesis by (simp add: emitted_def)
next
  case (Some rule)
  have ne: "substitutes rule \<noteq> []" by (rule rule_candidates(1)[OF Some])
  have "(case find (inPantry pantryItems) (substitutes rule) of
           Some s \<Rightarrow> s | None \<Rightarrow> hd (substitutes rule)) \<in> set (substitutes rule)"
  proof (cases "find (inPantry pantryItems) (substitutes rule)")
    case None
    with ne show ?thesis by simp
  next
    case (Some x)
    then have "x \<in> set (substitutes rule)" by (auto simp: find_Some_iff)
    with Some show ?thesis by simp
  qed
  with assms Some show ?thesis by (simp add: emitted_def)
qed

lemma emitted_originals:
  "map original (concat (map (emitted pantryItems) ingredients)) =
     filter (\<lambda>ingredient. map_of getSubstitutionRules (toLowerCase ingredient) \<noteq> None)
       ingredients"
  by (induction ingredients) (auto simp: emitted_def split: option.splits)

lemma emitted_at_most_one: "length (emitted pantryItems ingredient) \<le> 1"
  by (simp add: emitted_def split: option.splits)

lemma emitted_length:
  "length (concat (map (emitted pantryItems) ingredients)) \<le> length ingredients"
proof (induction ingredients)
  case Nil
  show ?case by simp
next
  case (Cons ingredient rest)
  with emitted_at_most_one [of pantryItems ingredient] show ?case by simp
qed

lemma findIngredientSubstitutes_returns:
  assumes "\<not> list_ex readsBuiltin (authenticIngredients recipe)"
  shows "findIngredientSubstitutes recipe pantryItems userRegion =
           Inr (concat (map (emitted pantryItems) (authenticIngredients recipe)))"
  using assms by (simp add: findIngredientSubstitutes_eq)

lemma findIngredientSubstitutes_throws:
  "(findIngredientSubstitutes recipe pantryItems userRegion = Inl TypeError) =
     list_ex (\<lambda>ingredient. toLowerCase ingredient = ''constructor''
                \<or> toLowerCase ingredient = ''__proto__'') (authenticIngredients recipe)"
proof -
  have "readsBuiltin = (\<lambda>ingredient. toLowerCase ingredient = ''constructor''
                \<or> toLowerCase ingredient = ''__proto__'')"
    by (rule ext) (rule readsBuiltin_iff)
  then show ?thesis by (simp add: findIngredientSubstitutes_eq)
qed

subsection \<open>Substitute selection\<close>

text \<open>
  Claim C1. For every ingredient list and pantry, each ingredient whose lowercased name
  has a rule gets as substitute the first candidate, in the rule's order, that some
  lowercased pantry name contains, and the rule's first candidate when there is none.
  The rounds of the loop do select this way (\<open>findIngredientSubstitutes_returns\<close>), but
  the selection reaches the caller only when no other ingredient makes the call throw:
  \<open>tahini\<close> alone with an empty pantry gets the fallback \<open>smooth peanut butter\<close>, while
  \<open>tahini\<close> followed by \<open>constructor\<close> gets nothing, the call ends in a \<open>TypeError\<close>.
\<close>

theorem selection_lost_on_inherited_key:
  "findIngredientSubstitutes \<lparr>authenticIngredients = [''tahini'']\<rparr>
     ([] :: PantryItem list) ''middle_east'' =
     Inr [\<lparr>original = ''tahini'', substitute = ''smooth peanut butter'',
           subNotes = ''Thin with sesame oil if available for closer flavor profile'',
           flavorImpact = minimal\<rparr>]
   \<and> findIngredientSubstitutes \<lparr>authenticIngredients = [''tahini'', ''constructor'']\<rparr>
     ([] :: PantryItem list) ''middle_east'' = Inl TypeError"
  by code_simp

text \<open>
  Claim C3. For the single ingredient \<open>fish sauce\<close> and a pantry holding exactly one item
  named \<open>Light Soy Sauce\<close>, the one substitution returned has the substitute
  \<open>soy sauce with salt\<close>. It is the fallback to the rule's first candidate, not a pantry
  match: the test is that the lowercased pantry name contains the candidate, and
  \<open>light soy sauce\<close> contains neither \<open>soy sauce with salt\<close> nor
  \<open>worcestershire sauce\<close>, so the search over the candidates finds nothing.
\<close>

theorem fish_sauce_fallback:
  "findIngredientSubstitutes \<lparr>authenticIngredients = [''fish sauce'']\<rparr>
       [\<lparr>name = ''Light Soy Sauce''\<rparr>] userRegion =
     Inr [\<lparr>original = ''fish sauce'', substitute = ''soy sauce with salt'',
           subNotes = ''Add a pinch of salt and a drop of vinegar to better mimic umami flavor'',
           flavorImpact = significant\<rparr>]
   \<and> map_of getSubstitutionRules (toLowerCase ''fish sauce'') =
       Some \<lparr>substitutes = [''soy sauce with salt'', ''worcestershire sauce''],
             ruleNotes = ''Add a pinch of salt and a drop of vinegar to better mimic umami flavor'',
             ruleFlavorImpact = significant\<rparr>
   \<and> toLowerCase ''Light Soy Sauce'' = ''light soy sauce''
   \<and> \<not> includes_str ''light soy sauce'' ''soy sauce with salt''
   \<and> \<not> includes_str ''light soy sauce'' ''worcestershire sauce''
   \<and> find (inPantry [\<lparr>name = ''Light Soy Sauce''\<rparr>])
        [''soy sauce with salt'', ''worcestershire sauce''] = None
   \<and> hd [''soy sauce with salt'', ''worcestershire sauce''] = ''soy sauce with salt''"
proof -
  have "findIngredientSubstitutes \<lparr>authenticIngredients = [''fish sauce'']\<rparr>
       [\<lparr>name = ''Light Soy Sauce''\<rparr>] [] =
     Inr [\<lparr>original = ''fish sauce'', substitute = ''soy sauce with salt'',
           subNotes = ''Add a pinch of salt and a drop of vinegar to better mimic umami flavor'',
           flavorImpact = significant\<rparr>]"
    by code_simp
  then have run: "findIngredientSubstitutes \<lparr>authenticIngredients = [''fish sauce'']\<rparr>
       [\<lparr>name = ''Light Soy Sauce''\<rparr>] userRegion =
     Inr [\<lparr>original = ''fish sauce'', substitute = ''soy sauce with salt'',
           subNotes = ''Add a pinch of salt and a drop of vinegar to better mimic umami flavor'',
           flavorImpact = significant\<rparr>]"
    by (simp add: findIngredientSubstitutes_def)
  have rule: "map_of getSubstitutionRules (toLowerCase ''fish sauce'') =
       Some \<lparr>substitutes = [''soy sauce with salt'', ''worcestershire sauce''],
             ruleNotes = ''Add a pinch of salt and a drop of vinegar to better mimic umami flavor'',
             ruleFlavorImpact = significant\<rparr>"
    by code_simp
  have low: "toLowerCase ''Light Soy Sauce'' = ''light soy sauce''" by code_simp
  have n1: "\<not> includes_str ''light soy sauce'' ''soy sauce with salt''" by code_simp
  have n2: "\<not> includes_str ''light soy sauce'' ''worcestershire sauce''" by code_simp
  have f: "find (inPantry [\<lparr>name = ''Light Soy Sauce''\<rparr>])
        [''soy sauce with salt'', ''worcestershire sauce''] = None"
    by code_simp
  from run rule low n1 n2 f show ?thesis by simp
qed

text \<open>
  The claim as first stated, that the substitute is returned and was found by the pantry
  search, fails at this input.
\<close>

theorem fish_sauce_counterexample:
  "\<not> (findIngredientSubstitutes \<lparr>authenticIngredients = [''fish sauce'']\<rparr>
          [\<lparr>name = ''Light Soy Sauce''\<rparr>] ''southeast_asia'' =
        Inr [\<lparr>original = ''fish sauce'', substitute = ''soy sauce with salt'',
              subNotes = ''Add a pinch of salt and a drop of vinegar to better mimic umami flavor'',
              flavorImpact = significant\<rparr>]
      \<and> find (inPantry [\<lparr>name = ''Light Soy Sauce''\<rparr>])
          [''soy sauce with salt'', ''worcestershire sauce''] = Some ''soy sauce with salt'')"
proof -
  have "find (inPantry [\<lparr>name = ''Light Soy Sauce''\<rparr>])
          [''soy sauce with salt'', ''worcestershire sauce''] = None"
    by code_simp
  then show ?thesis by simp
qed

subsection \<open>Skipping, order and totality\<close>

text \<open>
  Claim C4. No entry is emitted for an ingredient whose lowercased name is not a key of
  the substitution table, so the output is no longer than the input and an input without
  any matchable ingredient gives the empty list and no error; at most one entry per
  ingredient, in input order. When the call returns this holds (\<open>emitted_length\<close>,
  \<open>emitted_originals\<close>), and \<open>saffron\<close> alone gives the empty list; but
  \<open>__proto__\<close>, which is not a key of the table either, gives a \<open>TypeError\<close> instead
  of the empty list.
\<close>

theorem unmatched_ingredient_throws:
  "map_of getSubstitutionRules (toLowerCase ''saffron'') = None
   \<and> findIngredientSubstitutes \<lparr>authenticIngredients = [''saffron'']\<rparr>
     [\<lparr>name = ''Butter''\<rparr>] ''south_asia'' = Inr []
   \<and> map_of getSubstitutionRules (toLowerCase ''__proto__'') = None
   \<and> findIngredientSubstitutes \<lparr>authenticIngredients = [''__proto__'']\<rparr>
     [\<lparr>name = ''Butter''\<rparr>] ''south_asia'' = Inl TypeError"
  by code_simp

text \<open>
  Claim C5. None of the four operations raises an error, whatever the input. The three
  other operations are total, but \<open>findIngredientSubstitutes\<close> throws a \<open>TypeError\<close>
  on a recipe that lists the ingredient \<open>Constructor\<close>: the lowercased name reads the
  inherited \<^verbatim>\<open>Object.prototype.constructor\<close> from the rules object, the value is truthy, and
  \<^verbatim>\<open>rule.substitutes.find\<close> is called on \<^verbatim>\<open>undefined\<close>.
\<close>

theorem findIngredientSubstitutes_not_total:
  "getProperty getSubstitutionRules (toLowerCase ''Constructor'') = Some Builtin
   \<and> findIngredientSubstitutes \<lparr>authenticIngredients = [''Constructor'']\<rparr>
     [\<lparr>name = ''Light Soy Sauce''\<rparr>] ''east_asia'' = Inl TypeError"
  by code_simp

subsection \<open>Consistency with the table\<close>

text \<open>
  Claim C8. Every substitution that \<open>findIngredientSubstitutes\<close> emits agrees with the
  static table: its original is an input ingredient, unchanged; its substitute is one of
  the candidates of the rule stored under the lowercased original; its notes and flavour
  impact are those of that rule.
\<close>

theorem emitted_matches_table:
  assumes "findIngredientSubstitutes recipe pantryItems userRegion = Inr out"
    and "s \<in> set out"
  shows "original s \<in> set (authenticIngredients recipe)
     \<and> (\<exists>rule. map_of getSubstitutionRules (toLowerCase (original s)) = Some rule
           \<and> substitute s \<in> set (substitutes rule)
           \<and> subNotes s = ruleNotes rule
           \<and> flavorImpact s = ruleFlavorImpact rule)"
proof -
  from assms(1) have "out = concat (map (emitted pantryItems) (authenticIngredients recipe))"
    by (simp add: findIngredientSubstitutes_eq split: if_splits)
  with assms(2) obtain ingredient where i: "ingredient \<in> set (authenticIngredients recipe)"
    and s: "s \<in> set (emitted pantryItems ingredient)"
    by auto
  from emitted_entry[OF s] i show ?thesis by auto
qed

theorem emitted_matches_table_witness:
  "findIngredientSubstitutes \<lparr>authenticIngredients = [''Saffron'', ''GHEE'']\<rparr>
       [\<lparr>name = ''Salted Butter''\<rparr>] ''south_asia'' =
     Inr [\<lparr>original = ''GHEE'', substitute = ''butter'',
           subNotes = ''Unsalted butter is your best alternative, coconut oil changes flavor profile'',
           flavorImpact = minimal\<rparr>]
   \<and> ''GHEE'' \<in> set [''Saffron'', ''GHEE'']
   \<and> (\<exists>rule. map_of getSubstitutionRules (toLowerCase ''GHEE'') = Some rule
           \<and> ''butter'' \<in> set (substitutes rule)
           \<and> ''Unsalted butter is your best alternative, coconut oil changes flavor profile'' = ruleNotes rule
           \<and> minimal = ruleFlavorImpact rule)"
proof -
  let ?s = "\<lparr>original = ''GHEE'', substitute = ''butter'',
           subNotes = ''Unsalted butter is your best alternative, coconut oil changes flavor profile'',
           flavorImpact = minimal\<rparr>"
  have run: "findIngredientSubstitutes \<lparr>authenticIngredients = [''Saffron'', ''GHEE'']\<rparr>
       [\<lparr>name = ''Salted Butter''\<rparr>] ''south_asia'' = Inr [?s]"
    by code_simp
  have mem: "?s \<in> set [?s]" by simp
  from emitted_matches_table [OF run mem] run show ?thesis by simp
qed

subsection \<open>Arguments that are never read\<close>

text \<open>
  Claim C9. The result of \<open>findIngredientSubstitutes\<close> does not depend on the
  \<open>userRegion\<close> argument: for every recipe and pantry, any two region strings give the
  same result.
\<close>

theorem userRegion_ignored:
  "findIngredientSubstitutes recipe pantryItems r1 =
     findIngredientSubstitutes recipe pantryItems r2"
  by (simp add: findIngredientSubstitutes_def)

text \<open>
  Claim C10. The pairing and etiquette lookups depend on the region code only:
  \<open>findComplementaryDishes\<close> gives the same result for any two recipes and any two
  cuisines with the same region, \<open>getServingEtiquetteGuide\<close> for any two recipes at the
  same region, and \<open>analyzeAuthenticityScore\<close> for any two recipes at the same
  substitutions.
\<close>

theorem lookups_read_region_only:
  "(region cuisine1 = region cuisine2 \<longrightarrow>
      findComplementaryDishes recipe1 cuisine1 = findComplementaryDishes recipe2 cuisine2)
   \<and> getServingEtiquetteGuide recipe1 regionCode = getServingEtiquetteGuide recipe2 regionCode
   \<and> analyzeAuthenticityScore recipe1 subs = analyzeAuthenticityScore recipe2 subs"
  by (simp add: findComplementaryDishes_def getServingEtiquetteGuide_def
      analyzeAuthenticityScore_def)

theorem lookups_read_region_only_witness:
  "region \<lparr>region = ''south_asia'', keyIngredients = [''ghee'']\<rparr> =
     region \<lparr>region = ''south_asia'', keyIngredients = [''paneer'', ''cumin'']\<rparr>
   \<and> findComplementaryDishes \<lparr>authenticIngredients = [''ghee'']\<rparr>
       \<lparr>region = ''south_asia'', keyIngredients = [''ghee'']\<rparr> =
     findComplementaryDishes \<lparr>authenticIngredients = [''tahini'', ''sumac'']\<rparr>
       \<lparr>region = ''south_asia'', keyIngredients = [''paneer'', ''cumin'']\<rparr>"
  using lookups_read_region_only
    [of "\<lparr>region = ''south_asia'', keyIngredients = [''ghee'']\<rparr>"
        "\<lparr>region = ''south_asia'', keyIngredients = [''paneer'', ''cumin'']\<rparr>"
        "\<lparr>authenticIngredients = [''ghee'']\<rparr>"
        "\<lparr>authenticIngredients = [''tahini'', ''sumac'']\<rparr>"]
  by simp

end
